theory Spec2Isabelle
  imports Main "HOL-Library.Word"
begin

section \<open>RealEstateBondFHE: the on-chain batch and decryption-callback coordinator\<close>

text \<open>
  A shallow embedding of the Solidity contract \<^verbatim>\<open>RealEstateBondFHE\<close>. Storage is a
  record of the contract's state variables; a Solidity \<^verbatim>\<open>mapping\<close> is a total function
  whose default is the zero value. Every external function takes the storage, the message
  sender and the block timestamp, and returns an outcome: either the contract reverted (with
  the error and the working storage at the moment of the revert), or the FHE library
  reverted a call that the contract made, or the call succeeded (with the new storage and
  the events it emitted).
\<close>

subsection \<open>Value types\<close>

type_synonym address = "160 word"
type_synonym uint256 = "256 word"
type_synonym uint32 = "32 word"
type_synonym bytes32 = "256 word"
type_synonym bytes = "8 word list"

text \<open>An encrypted 32-bit amount is an opaque handle, a \<^verbatim>\<open>bytes32\<close> user-defined value type.\<close>

type_synonym euint32 = bytes32

record DecryptionContext =
  batchId :: uint256
  stateHash :: bytes32
  processed :: bool

record Batch =
  exists :: bool
  closed :: bool

record storage =
  owner :: address
  isProvider :: "address \<Rightarrow> bool"
  lastSubmissionTime :: "address \<Rightarrow> uint256"
  lastDecryptionRequestTime :: "address \<Rightarrow> uint256"
  cooldownSeconds :: uint256
  paused :: bool
  decryptionContexts :: "uint256 \<Rightarrow> DecryptionContext"
  batches :: "uint256 \<Rightarrow> Batch"
  totalEncryptedValue :: euint32
  totalEncryptedShares :: euint32
  batchEncryptedValue :: "uint256 \<Rightarrow> euint32"
  batchEncryptedShares :: "uint256 \<Rightarrow> euint32"
  providerEncryptedValue :: "uint256 \<Rightarrow> address \<Rightarrow> euint32"
  providerEncryptedShares :: "uint256 \<Rightarrow> address \<Rightarrow> euint32"

datatype event =
    OwnershipTransferred address address
  | ProviderAdded address
  | ProviderRemoved address
  | CooldownSecondsSet uint256 uint256
  | PausedEvent address
  | Unpaused address
  | BatchOpened uint256
  | BatchClosedEvent uint256
  | DataSubmitted address uint256 euint32 euint32
  | DecryptionRequested uint256 uint256 bytes32
  | DecryptionCompleted uint256 uint256 uint32 uint32

text \<open>
  The ten custom errors of the contract, and the two reverts that the compiler inserts:
  the panic of checked arithmetic (Solidity 0.8) and the revert of \<^verbatim>\<open>abi.decode\<close> on a
  malformed payload.
\<close>

datatype error =
    NotOwner
  | NotProvider
  | Paused
  | CooldownActive
  | BatchDoesNotExist
  | BatchClosed
  | InvalidBatch
  | ReplayAttempt
  | StateMismatch
  | InvalidProof
  | ArithmeticPanic
  | AbiDecodeRevert

text \<open>
  \<open>Reverted\<close> is a revert of the contract's own code. \<open>Refused\<close> is a revert raised inside
  the FHE library during a call from the contract, after the contract's checks have passed
  and possibly after some of its writes: the transaction is rolled back as a whole.
\<close>

datatype outcome =
    Reverted error storage
  | Refused
  | Succeeded storage "event list"

subsection \<open>The platform the contract runs on\<close>

text \<open>
  The FHE library, the hash function and the contract's own address are not part of the
  contract: they are parameters of the model. \<open>FHE_asEuint32\<close> is the trivial encryption of
  a plaintext, \<open>FHE_add\<close> the homomorphic addition of two handles, \<open>FHE_isInitialized\<close> the
  initialization check, \<open>FHE_checkSignatures\<close> the verification of a decryption proof,
  \<open>keccak256\<close> the hash of a word-aligned byte string (given as its 32-byte words) and
  \<open>this\<close> is \<^verbatim>\<open>address(this)\<close>.

  A call into the library need not return: the library may revert it, for instance because
  the calling contract has no access to an operand handle. \<open>FHE_reverts\<close> tells of every
  call that a transaction of the contract makes, with its operands, whether the library
  reverts it; \<open>FHE_asEuint32\<close> and \<open>FHE_add\<close> give the result of a call that returns. The
  request id of a decryption request is chosen by the decryption oracle and is not part of
  the call.
\<close>

datatype fhe_call =
    AsEuint32 uint32
  | Add euint32 euint32
  | RequestDecryption "bytes32 list"

record fhevm =
  FHE_asEuint32 :: "uint32 \<Rightarrow> euint32"
  FHE_add :: "euint32 \<Rightarrow> euint32 \<Rightarrow> euint32"
  FHE_reverts :: "fhe_call \<Rightarrow> bool"
  FHE_isInitialized :: "euint32 \<Rightarrow> bool"
  FHE_checkSignatures :: "uint256 \<Rightarrow> bytes \<Rightarrow> bytes \<Rightarrow> bool"
  keccak256 :: "uint256 list \<Rightarrow> bytes32"
  this :: address

text \<open>
  \<^verbatim>\<open>abi.encode(cts, address(this))\<close> for a dynamic array and an address: the offset of the
  array's tail, the address, then the array's length and its elements.
\<close>

definition abi_encode :: "bytes32 list \<Rightarrow> address \<Rightarrow> uint256 list" where
  "abi_encode cts a = [64, ucast a, of_nat (length cts)] @ cts"

text \<open>
  \<^verbatim>\<open>abi.decode(cleartexts, (uint32, uint32))\<close>: two 32-byte big-endian words, each of which
  must fit 32 bits; a shorter payload or a word out of range reverts.
\<close>

definition word_of_bytes :: "bytes \<Rightarrow> uint256" where
  "word_of_bytes bs = foldl (\<lambda>acc b. acc * 256 + ucast b) 0 bs"

definition abi_decode :: "bytes \<Rightarrow> (uint32 \<times> uint32) option" where
  "abi_decode cleartexts =
     (if length cleartexts < 64 then None
      else
        let a = word_of_bytes (take 32 cleartexts);
            b = word_of_bytes (take 32 (drop 32 cleartexts))
        in if a < 2 ^ 32 \<and> b < 2 ^ 32 then Some (ucast a, ucast b) else None)"

text \<open>Checked addition of Solidity 0.8: \<open>None\<close> where the sum does not fit 256 bits.\<close>

definition checked_add :: "uint256 \<Rightarrow> uint256 \<Rightarrow> uint256 option" where
  "checked_add a b = (if unat a + unat b < 2 ^ 256 then Some (a + b) else None)"

subsection \<open>Internal functions\<close>

definition initIfNeeded :: "fhevm \<Rightarrow> storage \<Rightarrow> storage" where
  "initIfNeeded env s =
     (let s1 = (if \<not> FHE_isInitialized env (totalEncryptedValue s)
                then s\<lparr>totalEncryptedValue := FHE_asEuint32 env 0\<rparr> else s);
          s2 = (if \<not> FHE_isInitialized env (totalEncryptedShares s1)
                then s1\<lparr>totalEncryptedShares := FHE_asEuint32 env 0\<rparr> else s1)
      in s2)"

text \<open>The calls into the library that \<^verbatim>\<open>_initIfNeeded\<close> makes, in order.\<close>

definition initIfNeeded_calls :: "fhevm \<Rightarrow> storage \<Rightarrow> fhe_call list" where
  "initIfNeeded_calls env s =
     (if \<not> FHE_isInitialized env (totalEncryptedValue s) then [AsEuint32 0] else []) @
     (if \<not> FHE_isInitialized env (totalEncryptedShares s) then [AsEuint32 0] else [])"

text \<open>
  \<^verbatim>\<open>_requireInitialized\<close> returns (\<open>True\<close>) on an initialized handle and reverts with a
  string (\<open>False\<close>) otherwise; no function of the contract calls it.
\<close>

definition requireInitialized :: "fhevm \<Rightarrow> euint32 \<Rightarrow> bool" where
  "requireInitialized env v = FHE_isInitialized env v"

definition getCiphertexts :: "storage \<Rightarrow> uint256 \<Rightarrow> bytes32 list" where
  "getCiphertexts s bid = [batchEncryptedValue s bid, batchEncryptedShares s bid]"

definition hashCiphertexts :: "fhevm \<Rightarrow> storage \<Rightarrow> uint256 \<Rightarrow> bytes32" where
  "hashCiphertexts env s bid = keccak256 env (abi_encode (getCiphertexts s bid) (this env))"

subsection \<open>Deployment\<close>

definition zero_storage :: storage where
  "zero_storage =
     \<lparr>owner = 0, isProvider = (\<lambda>_. False), lastSubmissionTime = (\<lambda>_. 0),
      lastDecryptionRequestTime = (\<lambda>_. 0), cooldownSeconds = 0, paused = False,
      decryptionContexts = (\<lambda>_. \<lparr>batchId = 0, stateHash = 0, processed = False\<rparr>),
      batches = (\<lambda>_. \<lparr>exists = False, closed = False\<rparr>),
      totalEncryptedValue = 0, totalEncryptedShares = 0,
      batchEncryptedValue = (\<lambda>_. 0), batchEncryptedShares = (\<lambda>_. 0),
      providerEncryptedValue = (\<lambda>_ _. 0), providerEncryptedShares = (\<lambda>_ _. 0)\<rparr>"

definition constructor :: "fhevm \<Rightarrow> address \<Rightarrow> storage" where
  "constructor env sender =
     initIfNeeded env (zero_storage\<lparr>owner := sender, cooldownSeconds := 60\<rparr>)"

subsection \<open>Administration\<close>

definition transferOwnership :: "storage \<Rightarrow> address \<Rightarrow> address \<Rightarrow> outcome" where
  "transferOwnership s sender newOwner =
     (if sender \<noteq> owner s then Reverted NotOwner s
      else
        let previousOwner = owner s;
            s1 = s\<lparr>owner := newOwner\<rparr>
        in Succeeded s1 [OwnershipTransferred previousOwner newOwner])"

definition addProvider :: "storage \<Rightarrow> address \<Rightarrow> address \<Rightarrow> outcome" where
  "addProvider s sender provider =
     (if sender \<noteq> owner s then Reverted NotOwner s
      else Succeeded (s\<lparr>isProvider := (isProvider s)(provider := True)\<rparr>)
             [ProviderAdded provider])"

definition removeProvider :: "storage \<Rightarrow> address \<Rightarrow> address \<Rightarrow> outcome" where
  "removeProvider s sender provider =
     (if sender \<noteq> owner s then Reverted NotOwner s
      else Succeeded (s\<lparr>isProvider := (isProvider s)(provider := False)\<rparr>)
             [ProviderRemoved provider])"

definition setCooldownSeconds :: "storage \<Rightarrow> address \<Rightarrow> uint256 \<Rightarrow> outcome" where
  "setCooldownSeconds s sender newCooldownSeconds =
     (if sender \<noteq> owner s then Reverted NotOwner s
      else
        let oldCooldown = cooldownSeconds s;
            s1 = s\<lparr>cooldownSeconds := newCooldownSeconds\<rparr>
        in Succeeded s1 [CooldownSecondsSet oldCooldown newCooldownSeconds])"

definition pause :: "storage \<Rightarrow> address \<Rightarrow> outcome" where
  "pause s sender =
     (if sender \<noteq> owner s then Reverted NotOwner s
      else if paused s then Reverted Paused s
      else Succeeded (s\<lparr>paused := True\<rparr>) [PausedEvent sender])"

definition unpause :: "storage \<Rightarrow> address \<Rightarrow> outcome" where
  "unpause s sender =
     (if sender \<noteq> owner s then Reverted NotOwner s
      else Succeeded (s\<lparr>paused := False\<rparr>) [Unpaused sender])"

subsection \<open>Batch lifecycle\<close>

definition openBatch :: "storage \<Rightarrow> address \<Rightarrow> uint256 \<Rightarrow> outcome" where
  "openBatch s sender bid =
     (if sender \<noteq> owner s then Reverted NotOwner s
      else if paused s then Reverted Paused s
      else if exists (batches s bid) then Reverted InvalidBatch s
      else Succeeded (s\<lparr>batches := (batches s)(bid := \<lparr>exists = True, closed = False\<rparr>)\<rparr>)
             [BatchOpened bid])"

definition closeBatch :: "storage \<Rightarrow> address \<Rightarrow> uint256 \<Rightarrow> outcome" where
  "closeBatch s sender bid =
     (if sender \<noteq> owner s then Reverted NotOwner s
      else if paused s then Reverted Paused s
      else if \<not> exists (batches s bid) then Reverted BatchDoesNotExist s
      else if closed (batches s bid) then Reverted BatchClosed s
      else Succeeded (s\<lparr>batches := (batches s)(bid := (batches s bid)\<lparr>closed := True\<rparr>)\<rparr>)
             [BatchClosedEvent bid])"

subsection \<open>Submission ledger\<close>

text \<open>
  The statements of \<^verbatim>\<open>submitData\<close> after its checks, in source order. The third component
  lists the operand pairs of the four calls of \<^verbatim>\<open>FHE.add\<close>, as they are at each call.
\<close>

definition submitData_body ::
  "fhevm \<Rightarrow> storage \<Rightarrow> address \<Rightarrow> uint256 \<Rightarrow> uint256 \<Rightarrow> uint32 \<Rightarrow> uint32
     \<Rightarrow> storage \<times> event list \<times> (euint32 \<times> euint32) list" where
  "submitData_body env s sender now bid val shares =
     (let s1 = s\<lparr>lastSubmissionTime := (lastSubmissionTime s)(sender := now)\<rparr>;
          s2 = initIfNeeded env s1;
          encryptedValue = FHE_asEuint32 env val;
          encryptedShares = FHE_asEuint32 env shares;
          s3 = s2\<lparr>providerEncryptedValue := (providerEncryptedValue s2)
                 (bid := (providerEncryptedValue s2 bid)(sender := encryptedValue))\<rparr>;
          s4 = s3\<lparr>providerEncryptedShares := (providerEncryptedShares s3)
                 (bid := (providerEncryptedShares s3 bid)(sender := encryptedShares))\<rparr>;
          s5 = s4\<lparr>batchEncryptedValue := (batchEncryptedValue s4)
                 (bid := FHE_add env (batchEncryptedValue s4 bid) encryptedValue)\<rparr>;
          s6 = s5\<lparr>batchEncryptedShares := (batchEncryptedShares s5)
                 (bid := FHE_add env (batchEncryptedShares s5 bid) encryptedShares)\<rparr>;
          s7 = s6\<lparr>totalEncryptedValue := FHE_add env (totalEncryptedValue s6) encryptedValue\<rparr>;
          s8 = s7\<lparr>totalEncryptedShares := FHE_add env (totalEncryptedShares s7) encryptedShares\<rparr>
      in (s8,
          [DataSubmitted sender bid encryptedValue encryptedShares],
          [(batchEncryptedValue s4 bid, encryptedValue),
           (batchEncryptedShares s5 bid, encryptedShares),
           (totalEncryptedValue s6, encryptedValue),
           (totalEncryptedShares s7, encryptedShares)]))"

text \<open>
  The calls into the library that \<^verbatim>\<open>submitData\<close> makes after its checks, in source order:
  those of \<^verbatim>\<open>_initIfNeeded\<close>, the two trivial encryptions and the four additions.
\<close>

definition submitData_calls ::
  "fhevm \<Rightarrow> storage \<Rightarrow> address \<Rightarrow> uint256 \<Rightarrow> uint256 \<Rightarrow> uint32 \<Rightarrow> uint32
     \<Rightarrow> fhe_call list" where
  "submitData_calls env s sender now bid val shares =
     initIfNeeded_calls env (s\<lparr>lastSubmissionTime := (lastSubmissionTime s)(sender := now)\<rparr>)
     @ [AsEuint32 val, AsEuint32 shares]
     @ map (\<lambda>(a, b). Add a b)
         (snd (snd (submitData_body env s sender now bid val shares)))"

text \<open>
  The checks of \<^verbatim>\<open>submitData\<close>, then its body. The call is refused when the library
  reverts one of the calls of the body.
\<close>

definition submitData ::
  "fhevm \<Rightarrow> storage \<Rightarrow> address \<Rightarrow> uint256 \<Rightarrow> uint256 \<Rightarrow> uint32 \<Rightarrow> uint32 \<Rightarrow> outcome" where
  "submitData env s sender now bid val shares =
     (if \<not> isProvider s sender then Reverted NotProvider s
      else if paused s then Reverted Paused s
      else case checked_add (lastSubmissionTime s sender) (cooldownSeconds s) of
        None \<Rightarrow> Reverted ArithmeticPanic s
      | Some deadline \<Rightarrow>
          if now < deadline then Reverted CooldownActive s
          else if \<not> exists (batches s bid) then Reverted BatchDoesNotExist s
          else if closed (batches s bid) then Reverted BatchClosed s
          else if list_ex (FHE_reverts env)
                    (submitData_calls env s sender now bid val shares)
            then Refused
          else
            let (s', evs, adds) = submitData_body env s sender now bid val shares
            in Succeeded s' evs)"

subsection \<open>Decryption coordinator\<close>

text \<open>
  \<open>requestId\<close> is the value that \<^verbatim>\<open>FHE.requestDecryption\<close> returns when it returns: the
  decryption oracle chooses it, so it is an input of the model. The library may also revert
  the request, after the timestamp of line 161 has been written.
\<close>

definition requestBatchDecryption ::
  "fhevm \<Rightarrow> storage \<Rightarrow> address \<Rightarrow> uint256 \<Rightarrow> uint256 \<Rightarrow> uint256 \<Rightarrow> outcome" where
  "requestBatchDecryption env s sender now bid requestId =
     (if sender \<noteq> owner s then Reverted NotOwner s
      else if paused s then Reverted Paused s
      else case checked_add (lastDecryptionRequestTime s sender) (cooldownSeconds s) of
        None \<Rightarrow> Reverted ArithmeticPanic s
      | Some deadline \<Rightarrow>
          if now < deadline then Reverted CooldownActive s
          else if \<not> exists (batches s bid) then Reverted BatchDoesNotExist s
          else
            let s1 = s\<lparr>lastDecryptionRequestTime :=
                        (lastDecryptionRequestTime s)(sender := now)\<rparr>;
                hash = hashCiphertexts env s1 bid
            in if FHE_reverts env (RequestDecryption (getCiphertexts s1 bid)) then Refused
               else
                 let s2 = s1\<lparr>decryptionContexts := (decryptionContexts s1)
                        (requestId := \<lparr>batchId = bid, stateHash = hash, processed = False\<rparr>)\<rparr>
                 in Succeeded s2 [DecryptionRequested requestId bid hash])"

definition myCallback :: "fhevm \<Rightarrow> storage \<Rightarrow> uint256 \<Rightarrow> bytes \<Rightarrow> bytes \<Rightarrow> outcome" where
  "myCallback env s requestId cleartexts proof =
     (if processed (decryptionContexts s requestId) then Reverted ReplayAttempt s
      else
        let ctx = decryptionContexts s requestId;
            currentHash = hashCiphertexts env s (batchId ctx)
        in if currentHash \<noteq> stateHash ctx then Reverted StateMismatch s
           else if \<not> FHE_checkSignatures env requestId cleartexts proof
             then Reverted InvalidProof s
           else case abi_decode cleartexts of
             None \<Rightarrow> Reverted AbiDecodeRevert s
           | Some (totalValue, totalShares) \<Rightarrow>
               let s1 = s\<lparr>decryptionContexts := (decryptionContexts s)
                          (requestId := (decryptionContexts s requestId)\<lparr>processed := True\<rparr>)\<rparr>
               in Succeeded s1
                    [DecryptionCompleted requestId (batchId ctx) totalValue totalShares])"

subsection \<open>Transactions\<close>

text \<open>
  A transaction is a sender, a block timestamp and a call of one external function. A
  reverted or refused transaction leaves the storage as it was; a successful one commits.
\<close>

datatype call =
    TransferOwnership address
  | AddProvider address
  | RemoveProvider address
  | SetCooldownSeconds uint256
  | Pause
  | Unpause
  | OpenBatch uint256
  | CloseBatch uint256
  | SubmitData uint256 uint32 uint32
  | RequestBatchDecryption uint256 uint256
  | MyCallback uint256 bytes bytes

type_synonym tx = "address \<times> uint256 \<times> call"

fun exec :: "fhevm \<Rightarrow> storage \<Rightarrow> tx \<Rightarrow> outcome" where
  "exec env s (sender, now, TransferOwnership newOwner) = transferOwnership s sender newOwner"
| "exec env s (sender, now, AddProvider provider) = addProvider s sender provider"
| "exec env s (sender, now, RemoveProvider provider) = removeProvider s sender provider"
| "exec env s (sender, now, SetCooldownSeconds n) = setCooldownSeconds s sender n"
| "exec env s (sender, now, Pause) = pause s sender"
| "exec env s (sender, now, Unpause) = unpause s sender"
| "exec env s (sender, now, OpenBatch bid) = openBatch s sender bid"
| "exec env s (sender, now, CloseBatch bid) = closeBatch s sender bid"
| "exec env s (sender, now, SubmitData bid val shares) =
     submitData env s sender now bid val shares"
| "exec env s (sender, now, RequestBatchDecryption bid requestId) =
     requestBatchDecryption env s sender now bid requestId"
| "exec env s (sender, now, MyCallback requestId cleartexts proof) =
     myCallback env s requestId cleartexts proof"

fun commit :: "storage \<Rightarrow> outcome \<Rightarrow> storage" where
  "commit s (Reverted e w) = s"
| "commit s Refused = s"
| "commit s (Succeeded s' evs) = s'"

fun run :: "fhevm \<Rightarrow> storage \<Rightarrow> tx list \<Rightarrow> storage" where
  "run env s [] = s"
| "run env s (t # ts) = run env (commit s (exec env s t)) ts"

fun succeeded :: "outcome \<Rightarrow> bool" where
  "succeeded (Succeeded s evs) = True"
| "succeeded (Reverted e w) = False"
| "succeeded Refused = False"

subsection \<open>A reference platform\<close>

text \<open>
  An instance of the platform on which the contract can be run: a transparent coprocessor
  whose handle for the plaintext \<open>v\<close> is \<open>v + 1\<close> (so that the zero handle stays the
  uninitialized one, and an uninitialized operand of an addition counts as zero), which
  reverts no call, a proof check that accepts the proof equal to the payload, and an
  arithmetic stand-in for the hash that never returns zero.
\<close>

definition clear_handle :: "uint32 \<Rightarrow> euint32" where
  "clear_handle v = ucast v + 1"

definition clear_value :: "euint32 \<Rightarrow> uint32" where
  "clear_value h = (if h = 0 then 0 else ucast (h - 1))"

definition reference_fhevm :: fhevm where
  "reference_fhevm =
     \<lparr>FHE_asEuint32 = clear_handle,
      FHE_add = (\<lambda>a b. clear_handle (clear_value a + clear_value b)),
      FHE_reverts = (\<lambda>c. False),
      FHE_isInitialized = (\<lambda>h. h \<noteq> 0),
      FHE_checkSignatures = (\<lambda>requestId cleartexts proof. proof = cleartexts),
      keccak256 = (\<lambda>ws. 2 * foldr (\<lambda>w acc. w + 31 * acc) ws 0 + 1),
      this = 0xC0DE\<rparr>"

text \<open>
  The same platform with access control on operand handles, for a contract that has been
  granted access to no handle (the contract makes no call that grants any): the library
  reverts an addition whose left operand is an initialized handle, and every decryption
  request. An uninitialized operand of an addition is replaced by a fresh encryption of
  zero, and a trivial encryption takes no operand handle.
\<close>

fun no_access :: "fhe_call \<Rightarrow> bool" where
  "no_access (AsEuint32 v) = False"
| "no_access (Add a b) = (a \<noteq> 0)"
| "no_access (RequestDecryption cts) = True"

definition guarded_fhevm :: fhevm where
  "guarded_fhevm = reference_fhevm\<lparr>FHE_reverts := no_access\<rparr>"

text \<open>The payload that encodes two 32-bit totals, each below 256.\<close>

definition payload :: "8 word \<Rightarrow> 8 word \<Rightarrow> bytes" where
  "payload a b = replicate 31 0 @ [a] @ replicate 31 0 @ [b]"

text \<open>
  The scenario of the specification: the owner (address 1) registers the providers 2 and 3
  and opens batch 1, both providers submit, and the owner requests the decryption, which
  the oracle numbers 7.
\<close>

definition scenario :: "tx list" where
  "scenario =
     [(1, 1000, AddProvider 2), (1, 1000, AddProvider 3), (1, 1000, OpenBatch 1),
      (2, 1000, SubmitData 1 100 10), (3, 1000, SubmitData 1 50 5),
      (1, 1000, RequestBatchDecryption 1 7)]"

definition requested :: storage where
  "requested = run reference_fhevm (constructor reference_fhevm 1) scenario"

subsection \<open>Traces\<close>

text \<open>A transaction issues the request id \<open>rid\<close> when it is a decryption request that the
  oracle numbers \<open>rid\<close>.\<close>

fun issues :: "uint256 \<Rightarrow> tx \<Rightarrow> bool" where
  "issues rid (sender, now, RequestBatchDecryption bid requestId) = (requestId = rid)"
| "issues rid (sender, now, c) = False"

text \<open>A transaction calls back \<open>rid\<close> when it is the decryption callback for \<open>rid\<close>.\<close>

fun calls_back :: "uint256 \<Rightarrow> tx \<Rightarrow> bool" where
  "calls_back rid (sender, now, MyCallback requestId cleartexts proof) = (requestId = rid)"
| "calls_back rid (sender, now, c) = False"

text \<open>
  The accepted submissions to batch \<open>b\<close> along a trace, oldest first: the provider and the
  two plaintexts of every \<^verbatim>\<open>submitData\<close> call on \<open>b\<close> that did not revert.
\<close>

fun submission_to :: "uint256 \<Rightarrow> tx \<Rightarrow> (address \<times> uint32 \<times> uint32) option" where
  "submission_to b (sender, now, SubmitData bid val shares) =
     (if bid = b then Some (sender, val, shares) else None)"
| "submission_to b (sender, now, c) = None"

fun accepted_submissions ::
  "fhevm \<Rightarrow> storage \<Rightarrow> tx list \<Rightarrow> uint256 \<Rightarrow> (address \<times> uint32 \<times> uint32) list" where
  "accepted_submissions env s [] b = []"
| "accepted_submissions env s (t # ts) b =
     (case submission_to b t of
        Some sub \<Rightarrow> if succeeded (exec env s t) then [sub] else []
      | None \<Rightarrow> [])
     @ accepted_submissions env (commit s (exec env s t)) ts b"

text \<open>The latest submission of provider \<open>p\<close> in a list of submissions, if there is one.\<close>

fun latest_of :: "address \<Rightarrow> (address \<times> uint32 \<times> uint32) list \<Rightarrow> (uint32 \<times> uint32) option" where
  "latest_of p [] = None"
| "latest_of p ((q, val, shares) # subs) =
     (case latest_of p subs of
        Some later \<Rightarrow> Some later
      | None \<Rightarrow> if q = p then Some (val, shares) else None)"

text \<open>The homomorphic sum of a list of plaintexts on top of a running total.\<close>

definition homomorphic_sum :: "fhevm \<Rightarrow> euint32 \<Rightarrow> uint32 list \<Rightarrow> euint32" where
  "homomorphic_sum env h vs = foldl (FHE_add env) h (map (FHE_asEuint32 env) vs)"

subsection \<open>States of the scenario\<close>

text \<open>Before the first submission: the providers are registered and batch 1 is open.\<close>

definition opened :: storage where
  "opened = run reference_fhevm (constructor reference_fhevm 1) (take 3 scenario)"

text \<open>After the oracle's callback with the totals 150 and 15 and a valid proof.\<close>

definition finalized :: storage where
  "finalized =
     run reference_fhevm requested [(9, 1001, MyCallback 7 (payload 150 15) (payload 150 15))]"

text \<open>The owner pauses the contract while the request is pending.\<close>

definition paused_pending :: storage where
  "paused_pending = run reference_fhevm requested [(1, 1001, Pause)]"


text \<open>The owner closes batch 1 while the request is pending.\<close>

definition closed_pending :: storage where
  "closed_pending = run reference_fhevm requested [(1, 1001, CloseBatch 1)]"

text \<open>Both submissions are in; the decryption has not been requested yet.\<close>

definition submitted :: storage where
  "submitted = run reference_fhevm (constructor reference_fhevm 1) (take 5 scenario)"

section \<open>Facts about the model\<close>

lemmas admin_defs = transferOwnership_def addProvider_def removeProvider_def
  setCooldownSeconds_def pause_def unpause_def

lemmas entry_defs = admin_defs openBatch_def closeBatch_def submitData_def
  requestBatchDecryption_def myCallback_def

lemmas platform_defs = reference_fhevm_def clear_handle_def clear_value_def

lemma initIfNeeded_fields [simp]:
  "decryptionContexts (initIfNeeded env s) = decryptionContexts s"
  "batches (initIfNeeded env s) = batches s"
  "batchEncryptedValue (initIfNeeded env s) = batchEncryptedValue s"
  "batchEncryptedShares (initIfNeeded env s) = batchEncryptedShares s"
  "providerEncryptedValue (initIfNeeded env s) = providerEncryptedValue s"
  "providerEncryptedShares (initIfNeeded env s) = providerEncryptedShares s"
  "lastSubmissionTime (initIfNeeded env s) = lastSubmissionTime s"
  "lastDecryptionRequestTime (initIfNeeded env s) = lastDecryptionRequestTime s"
  "owner (initIfNeeded env s) = owner s"
  "paused (initIfNeeded env s) = paused s"
  "isProvider (initIfNeeded env s) = isProvider s"
  "cooldownSeconds (initIfNeeded env s) = cooldownSeconds s"
  by (simp_all add: initIfNeeded_def Let_def)

lemma list_ex_never [simp]: "list_ex (\<lambda>c. False) cs = False"
  by (simp add: list_ex_iff)

lemma checked_add_Some:
  "unat a + unat b \<le> unat (c::uint256) \<Longrightarrow> checked_add a b = Some (a + b) \<and> a + b \<le> c"
proof -
  assume le: "unat a + unat b \<le> unat c"
  have "unat c < 2 ^ 256" using unsigned_less[of c] by simp
  with le have fit: "unat a + unat b < 2 ^ 256" by simp
  then have "unat (a + b) = unat a + unat b" by (simp add: unat_add_lem[THEN iffD1])
  with le have "a + b \<le> c" by (simp add: word_le_nat_alt)
  with fit show ?thesis by (simp add: checked_add_def)
qed


subsection \<open>Reverts happen before any write\<close>

lemma exec_reverted_same:
  "exec env s t = Reverted e w \<Longrightarrow> w = s"
  by (cases "(env, s, t)" rule: exec.cases)
     (auto simp: entry_defs Let_def split: if_splits option.splits prod.splits)

lemma myCallback_success_checks:
  "myCallback env s rid c p = Succeeded s' evs \<Longrightarrow>
     \<not> processed (decryptionContexts s rid) \<and>
     hashCiphertexts env s (batchId (decryptionContexts s rid))
       = stateHash (decryptionContexts s rid) \<and>
     FHE_checkSignatures env rid c p \<and>
     s' = s\<lparr>decryptionContexts := (decryptionContexts s)
            (rid := (decryptionContexts s rid)\<lparr>processed := True\<rparr>)\<rparr>"
  by (auto simp: myCallback_def Let_def split: if_splits option.splits prod.splits)

subsection \<open>What a transaction does to one decryption context\<close>

lemma exec_context:
  "\<not> issues rid t \<Longrightarrow>
     decryptionContexts (commit s (exec env s t)) rid = decryptionContexts s rid \<or>
     (\<exists>sender now c p s' evs. t = (sender, now, MyCallback rid c p) \<and>
        myCallback env s rid c p = Succeeded s' evs)"
  by (cases "(env, s, t)" rule: exec.cases)
     (auto simp: entry_defs submitData_body_def Let_def
           split: if_splits option.splits prod.splits)

lemma exec_processed_stays:
  assumes "\<not> issues rid t" "processed (decryptionContexts s rid)"
  shows "decryptionContexts (commit s (exec env s t)) rid = decryptionContexts s rid"
  using exec_context[OF assms(1), of s env] assms(2)
  by (auto dest: myCallback_success_checks)

lemma run_processed_stays:
  "\<forall>t\<in>set txs. \<not> issues rid t \<Longrightarrow> processed (decryptionContexts s rid) \<Longrightarrow>
     decryptionContexts (run env s txs) rid = decryptionContexts s rid"
proof (induction txs arbitrary: s)
  case Nil
  then show ?case by simp
next
  case (Cons t txs)
  have "decryptionContexts (commit s (exec env s t)) rid = decryptionContexts s rid"
    using Cons.prems by (simp add: exec_processed_stays)
  with Cons show ?case by simp
qed

lemma run_pending_stays:
  "\<forall>t\<in>set txs. \<not> issues rid t \<and> \<not> calls_back rid t \<Longrightarrow>
     decryptionContexts (run env s txs) rid = decryptionContexts s rid"
proof (induction txs arbitrary: s)
  case Nil
  then show ?case by simp
next
  case (Cons t txs)
  from Cons.prems have "\<not> issues rid t" and nc: "\<not> calls_back rid t" by simp_all
  from exec_context[OF this(1), of s env] nc
  have "decryptionContexts (commit s (exec env s t)) rid = decryptionContexts s rid"
    by auto
  with Cons show ?case by simp
qed

lemma zero_context_mismatch:
  assumes "decryptionContexts s rid = \<lparr>batchId = 0, stateHash = 0, processed = False\<rparr>"
    and "\<forall>v sh. keccak256 env (abi_encode [v, sh] (this env)) \<noteq> 0"
  shows "myCallback env s rid c p = Reverted StateMismatch s"
  using assms by (simp add: myCallback_def hashCiphertexts_def getCiphertexts_def Let_def)

lemma run_unissued_stays:
  assumes "\<forall>v sh. keccak256 env (abi_encode [v, sh] (this env)) \<noteq> 0"
  shows "\<forall>t\<in>set txs. \<not> issues rid t \<Longrightarrow>
     decryptionContexts s rid = \<lparr>batchId = 0, stateHash = 0, processed = False\<rparr> \<Longrightarrow>
     decryptionContexts (run env s txs) rid = decryptionContexts s rid"
proof (induction txs arbitrary: s)
  case Nil
  then show ?case by simp
next
  case (Cons t txs)
  from Cons.prems have ni: "\<not> issues rid t" by simp
  have "decryptionContexts (commit s (exec env s t)) rid = decryptionContexts s rid"
    using exec_context[OF ni, of s env] zero_context_mismatch[OF Cons.prems(2) assms]
    by auto
  with Cons show ?case by simp
qed

subsection \<open>Batches are never deleted or reopened\<close>

lemma exec_batches_monotone:
  "(exists (batches s b) \<longrightarrow> exists (batches (commit s (exec env s t)) b)) \<and>
   (exists (batches s b) \<and> closed (batches s b) \<longrightarrow>
      closed (batches (commit s (exec env s t)) b))"
  by (cases "(env, s, t)" rule: exec.cases)
     (auto simp: entry_defs submitData_body_def Let_def
           split: if_splits option.splits prod.splits)

lemma run_batches_monotone:
  "(exists (batches s b) \<longrightarrow> exists (batches (run env s txs) b)) \<and>
   (exists (batches s b) \<and> closed (batches s b) \<longrightarrow> closed (batches (run env s txs) b))"
proof (induction txs arbitrary: s)
  case Nil
  show ?case by simp
next
  case (Cons t txs)
  from exec_batches_monotone[of s b env t] Cons.IH[of "commit s (exec env s t)"]
  show ?case by simp
qed

subsection \<open>Totals and provider records along a trace\<close>

lemma exec_batch_total:
  "batchEncryptedValue (commit s (exec env s t)) b =
     homomorphic_sum env (batchEncryptedValue s b)
       (map (\<lambda>(p, v, sh). v)
         (case submission_to b t of
            Some sub \<Rightarrow> if succeeded (exec env s t) then [sub] else []
          | None \<Rightarrow> []))"
  "batchEncryptedShares (commit s (exec env s t)) b =
     homomorphic_sum env (batchEncryptedShares s b)
       (map (\<lambda>(p, v, sh). sh)
         (case submission_to b t of
            Some sub \<Rightarrow> if succeeded (exec env s t) then [sub] else []
          | None \<Rightarrow> []))"
  by (cases "(env, s, t)" rule: exec.cases;
      auto simp: entry_defs submitData_body_def homomorphic_sum_def Let_def
           split: if_splits option.splits prod.splits)+

lemma homomorphic_sum_append:
  "homomorphic_sum env h (vs @ ws) = homomorphic_sum env (homomorphic_sum env h vs) ws"
  by (simp add: homomorphic_sum_def)

lemma run_batch_total:
  "batchEncryptedValue (run env s txs) b =
     homomorphic_sum env (batchEncryptedValue s b)
       (map (\<lambda>(p, v, sh). v) (accepted_submissions env s txs b))"
  "batchEncryptedShares (run env s txs) b =
     homomorphic_sum env (batchEncryptedShares s b)
       (map (\<lambda>(p, v, sh). sh) (accepted_submissions env s txs b))"
proof (induction txs arbitrary: s)
  case Nil
  { case 1 show ?case by (simp add: homomorphic_sum_def) }
  { case 2 show ?case by (simp add: homomorphic_sum_def) }
next
  case (Cons t txs)
  { case 1 show ?case
      by (simp add: Cons.IH(1) exec_batch_total(1)[of s env t b] homomorphic_sum_append
               del: map_append) (simp add: homomorphic_sum_append) }
  { case 2 show ?case
      by (simp add: Cons.IH(2) exec_batch_total(2)[of s env t b] homomorphic_sum_append
               del: map_append) (simp add: homomorphic_sum_append) }
qed

lemma exec_provider_record:
  "providerEncryptedValue (commit s (exec env s t)) b p =
     (case submission_to b t of
        Some (q, v, sh) \<Rightarrow>
          if succeeded (exec env s t) \<and> q = p then FHE_asEuint32 env v
          else providerEncryptedValue s b p
      | None \<Rightarrow> providerEncryptedValue s b p)"
  "providerEncryptedShares (commit s (exec env s t)) b p =
     (case submission_to b t of
        Some (q, v, sh) \<Rightarrow>
          if succeeded (exec env s t) \<and> q = p then FHE_asEuint32 env sh
          else providerEncryptedShares s b p
      | None \<Rightarrow> providerEncryptedShares s b p)"
  by (cases "(env, s, t)" rule: exec.cases;
      auto simp: entry_defs submitData_body_def Let_def
           split: if_splits option.splits prod.splits)+

lemma run_provider_record:
  "providerEncryptedValue (run env s txs) b p =
     (case latest_of p (accepted_submissions env s txs b) of
        Some (v, sh) \<Rightarrow> FHE_asEuint32 env v
      | None \<Rightarrow> providerEncryptedValue s b p)"
  "providerEncryptedShares (run env s txs) b p =
     (case latest_of p (accepted_submissions env s txs b) of
        Some (v, sh) \<Rightarrow> FHE_asEuint32 env sh
      | None \<Rightarrow> providerEncryptedShares s b p)"
proof (induction txs arbitrary: s)
  case Nil
  { case 1 show ?case by simp }
  { case 2 show ?case by simp }
next
  case (Cons t txs)
  { case 1 show ?case
      by (simp add: Cons.IH(1) exec_provider_record(1)[of s env t b p]
               split: option.splits prod.splits) }
  { case 2 show ?case
      by (simp add: Cons.IH(2) exec_provider_record(2)[of s env t b p]
               split: option.splits prod.splits) }
qed

lemma decrypt_homomorphic_sum:
  assumes "\<forall>a b. dec (FHE_add env a b) = dec a + dec b"
    and "\<forall>v. dec (FHE_asEuint32 env v) = v"
  shows "dec (homomorphic_sum env h vs) = dec h + sum_list vs"
  using assms unfolding homomorphic_sum_def
  by (induction vs arbitrary: h) (simp_all add: add.assoc)

lemma constructor_batch_fields:
  "batchEncryptedValue (constructor env d) = (\<lambda>_. 0)"
  "batchEncryptedShares (constructor env d) = (\<lambda>_. 0)"
  "providerEncryptedValue (constructor env d) = (\<lambda>_ _. 0)"
  "providerEncryptedShares (constructor env d) = (\<lambda>_ _. 0)"
  "decryptionContexts (constructor env d) = (\<lambda>_. \<lparr>batchId = 0, stateHash = 0, processed = False\<rparr>)"
  by (simp_all add: constructor_def zero_storage_def)

subsection \<open>The reference platform\<close>

lemma unat_ucast_up: "unat (ucast (v::uint32) :: uint256) = unat v"
proof -
  have "unat v < 2 ^ 32" using unsigned_less[of v] by simp
  then have "unat v < 2 ^ 256" by (rule less_trans) simp
  then show ?thesis by (simp add: unsigned_ucast_eq take_bit_nat_eq_self)
qed

lemma unat_clear_handle: "unat (clear_handle v) = unat v + 1"
proof -
  have "unat v < 2 ^ 32" using unsigned_less[of v] by simp
  then have "unat v + 1 < 2 ^ 256" by simp
  then show ?thesis
    unfolding clear_handle_def by (simp add: unat_word_ariths unat_ucast_up)
qed

lemma clear_handle_nonzero: "clear_handle v \<noteq> 0"
  using unat_clear_handle[of v] by (metis Suc_eq_plus1 nat.distinct(1) unat_0)

lemma clear_value_handle: "clear_value (clear_handle v) = v"
proof -
  have "clear_handle v - 1 = ucast v" by (simp add: clear_handle_def)
  moreover have "(ucast (ucast v :: uint256) :: uint32) = v"
    by (rule ucast_up_ucast_id) (simp add: is_up)
  ultimately show ?thesis by (simp add: clear_value_def clear_handle_nonzero)
qed

lemma reference_homomorphic:
  "\<forall>a b. clear_value (FHE_add reference_fhevm a b) = clear_value a + clear_value b"
  "\<forall>v. clear_value (FHE_asEuint32 reference_fhevm v) = v"
  "clear_value 0 = 0"
  by (simp_all add: reference_fhevm_def clear_value_handle) (simp add: clear_value_def)

lemma reference_accepts [simp]: "list_ex (FHE_reverts reference_fhevm) cs = False"
  by (simp add: reference_fhevm_def)

lemma reference_accepts_call [simp]: "FHE_reverts reference_fhevm c = False"
  by (simp add: reference_fhevm_def)

lemma reference_hash_nonzero:
  "\<forall>v sh. keccak256 reference_fhevm (abi_encode [v, sh] (this reference_fhevm)) \<noteq> 0"
proof -
  have "2 * x + 1 \<noteq> (0::uint256)" for x
    by (metis even_add even_mult_iff even_zero odd_one even_numeral)
  then show ?thesis by (simp add: reference_fhevm_def)
qed

subsection \<open>The states of the scenario, computed\<close>

lemma deployed_eq:
  "constructor reference_fhevm 1 =
     zero_storage\<lparr>owner := 1, cooldownSeconds := 60,
                  totalEncryptedValue := 1, totalEncryptedShares := 1\<rparr>"
  by (simp add: constructor_def zero_storage_def initIfNeeded_def platform_defs)

lemma opened_eq:
  "opened =
     \<lparr>owner = 1, isProvider = (\<lambda>_. False)(2 := True, 3 := True),
      lastSubmissionTime = (\<lambda>_. 0),
      lastDecryptionRequestTime = (\<lambda>_. 0), cooldownSeconds = 60, paused = False,
      decryptionContexts = (\<lambda>_. \<lparr>batchId = 0, stateHash = 0, processed = False\<rparr>),
      batches = (\<lambda>_. \<lparr>exists = False, closed = False\<rparr>)
         (1 := \<lparr>exists = True, closed = False\<rparr>),
      totalEncryptedValue = 1, totalEncryptedShares = 1,
      batchEncryptedValue = (\<lambda>_. 0), batchEncryptedShares = (\<lambda>_. 0),
      providerEncryptedValue = (\<lambda>_ _. 0), providerEncryptedShares = (\<lambda>_ _. 0)\<rparr>"
  unfolding opened_def scenario_def deployed_eq
  by (simp add: zero_storage_def addProvider_def openBatch_def)

lemma scenario_split:
  "scenario = take 3 scenario @
     [(2, 1000, SubmitData 1 100 10), (3, 1000, SubmitData 1 50 5),
      (1, 1000, RequestBatchDecryption 1 7)]"
  by (simp add: scenario_def)

lemma run_append: "run env s (xs @ ys) = run env (run env s xs) ys"
  by (induction xs arbitrary: s) simp_all

lemma requested_eq:
  "requested =
     \<lparr>owner = 1, isProvider = (\<lambda>_. False)(2 := True, 3 := True),
      lastSubmissionTime = (\<lambda>_. 0)(2 := 1000, 3 := 1000),
      lastDecryptionRequestTime = (\<lambda>_. 0)(1 := 1000), cooldownSeconds = 60, paused = False,
      decryptionContexts = (\<lambda>_. \<lparr>batchId = 0, stateHash = 0, processed = False\<rparr>)
         (7 := \<lparr>batchId = 1, stateHash = 41614715, processed = False\<rparr>),
      batches = (\<lambda>_. \<lparr>exists = False, closed = False\<rparr>)
         (1 := \<lparr>exists = True, closed = False\<rparr>),
      totalEncryptedValue = 151, totalEncryptedShares = 16,
      batchEncryptedValue = (\<lambda>_. 0)(1 := 151), batchEncryptedShares = (\<lambda>_. 0)(1 := 16),
      providerEncryptedValue = (\<lambda>_ _. 0)(1 := (\<lambda>_. 0)(2 := 101, 3 := 51)),
      providerEncryptedShares = (\<lambda>_ _. 0)(1 := (\<lambda>_. 0)(2 := 11, 3 := 6))\<rparr>"
proof -
  have "requested = run reference_fhevm opened
     [(2, 1000, SubmitData 1 100 10), (3, 1000, SubmitData 1 50 5),
      (1, 1000, RequestBatchDecryption 1 7)]"
    unfolding requested_def opened_def by (subst scenario_split) (simp only: run_append)
  then show ?thesis
    unfolding opened_eq
    by (simp add: initIfNeeded_def platform_defs submitData_def submitData_body_def
          checked_add_def requestBatchDecryption_def hashCiphertexts_def getCiphertexts_def
          abi_encode_def Let_def)
qed

lemma word_of_zero_bytes: "word_of_bytes (replicate n 0 @ bs) = word_of_bytes bs"
  unfolding word_of_bytes_def by (induction n) simp_all

lemma payload_decodes: "abi_decode (payload 150 15) = Some (150, 15)"
proof -
  have "take 32 (payload 150 15) = replicate 31 0 @ [150]"
    and "take 32 (drop 32 (payload 150 15)) = replicate 31 0 @ [15]"
    and "length (payload 150 15) = 64"
    by (simp_all add: payload_def)
  then show ?thesis
    by (simp add: abi_decode_def word_of_zero_bytes) (simp add: word_of_bytes_def)
qed

lemma requested_hash: "hashCiphertexts reference_fhevm requested 1 = 41614715"
  by (simp add: requested_eq hashCiphertexts_def getCiphertexts_def abi_encode_def
        reference_fhevm_def)

lemma requested_context:
  "decryptionContexts requested 7 = \<lparr>batchId = 1, stateHash = 41614715, processed = False\<rparr>"
  by (simp add: requested_eq)

section \<open>The claims\<close>

subsection \<open>Replay protection\<close>

text \<open>
  Claim C1. A decryption callback is finalized at most once per request id. Once the context
  stored for a request id is processed (it was processed already, or a callback for it has
  just succeeded), every later callback with that request id reverts with ReplayAttempt and
  leaves the storage alone, whatever payload and proof it carries (so also with a proof that
  verifies) and whatever transactions ran in between, as long as the oracle does not issue
  the same request id again. A reverted call emits no event.
\<close>

theorem callback_accepted_at_most_once:
  assumes "processed (decryptionContexts s requestId) \<or>
           myCallback env s0 requestId cleartexts0 proof0 = Succeeded s evs"
    and "\<forall>t\<in>set txs. \<not> issues requestId t"
  shows "myCallback env (run env s txs) requestId cleartexts proof
           = Reverted ReplayAttempt (run env s txs)"
proof -
  from assms(1) have "processed (decryptionContexts s requestId)"
    by (auto dest: myCallback_success_checks)
  with assms(2) have "processed (decryptionContexts (run env s txs) requestId)"
    by (simp add: run_processed_stays)
  then show ?thesis by (simp add: myCallback_def)
qed

text \<open>
  In the scenario, the callback with the totals 150 and 15 is accepted once; after a further
  submission, the same callback with the same valid proof is a replay.
\<close>

theorem callback_accepted_at_most_once_witness:
  "myCallback reference_fhevm requested 7 (payload 150 15) (payload 150 15)
     = Succeeded finalized [DecryptionCompleted 7 1 150 15] \<and>
   FHE_checkSignatures reference_fhevm 7 (payload 150 15) (payload 150 15) \<and>
   myCallback reference_fhevm (run reference_fhevm finalized [(2, 2000, SubmitData 1 1 1)]) 7
       (payload 150 15) (payload 150 15)
     = Reverted ReplayAttempt (run reference_fhevm finalized [(2, 2000, SubmitData 1 1 1)])"
proof -
  have valid: "FHE_checkSignatures reference_fhevm 7 (payload 150 15) (payload 150 15)"
    by (simp add: reference_fhevm_def)
  have first: "myCallback reference_fhevm requested 7 (payload 150 15) (payload 150 15)
     = Succeeded finalized [DecryptionCompleted 7 1 150 15]"
    unfolding finalized_def
    by (simp add: myCallback_def requested_context requested_hash payload_decodes valid
          Let_def)
  have between: "\<forall>t\<in>set [(2, 2000, SubmitData 1 1 1)]. \<not> issues 7 t"
    by simp
  from callback_accepted_at_most_once[OF disjI2[OF first] between] first valid
  show ?thesis by simp
qed

subsection \<open>Batch lifecycle\<close>

text \<open>
  Claim C6. A batch id goes from nonexistent to open to closed, and closed is final. Opening
  an id that exists never succeeds, and for the owner of an unpaused contract it reverts with
  InvalidBatch; closing an id that was never opened reverts with BatchDoesNotExist; closing a
  closed batch reverts with BatchClosed. A successful \<open>openBatch\<close> leaves the batch open, a
  successful \<open>closeBatch\<close> leaves it closed, and no sequence of transactions deletes an
  existing batch or reopens a closed one.
\<close>

theorem batch_lifecycle:
  "(exists (batches s bid) \<longrightarrow> \<not> succeeded (openBatch s sender bid)) \<and>
   (exists (batches s bid) \<and> sender = owner s \<and> \<not> paused s \<longrightarrow>
      openBatch s sender bid = Reverted InvalidBatch s) \<and>
   (\<not> exists (batches s bid) \<and> sender = owner s \<and> \<not> paused s \<longrightarrow>
      closeBatch s sender bid = Reverted BatchDoesNotExist s) \<and>
   (exists (batches s bid) \<and> closed (batches s bid) \<and> sender = owner s \<and> \<not> paused s \<longrightarrow>
      closeBatch s sender bid = Reverted BatchClosed s) \<and>
   (openBatch s sender bid = Succeeded s' evs \<longrightarrow>
      \<not> exists (batches s bid) \<and> exists (batches s' bid) \<and> \<not> closed (batches s' bid)) \<and>
   (closeBatch s sender bid = Succeeded s' evs \<longrightarrow>
      exists (batches s bid) \<and> \<not> closed (batches s bid) \<and>
      exists (batches s' bid) \<and> closed (batches s' bid)) \<and>
   (exists (batches s bid) \<longrightarrow> exists (batches (run env s txs) bid)) \<and>
   (exists (batches s bid) \<and> closed (batches s bid) \<longrightarrow>
      exists (batches (run env s txs) bid) \<and> closed (batches (run env s txs) bid))"
  using run_batches_monotone[of s bid env txs]
  by (auto simp: openBatch_def closeBatch_def split: if_splits)

text \<open>
  In the scenario batch 1 is open and batch 2 was never opened; the owner closes batch 1, and
  then neither closing it again nor opening it again nor a submission brings it back.
\<close>

theorem batch_lifecycle_witness:
  "exists (batches requested 1) \<and> \<not> exists (batches requested 2) \<and>
   owner requested = 1 \<and> \<not> paused requested \<and>
   openBatch requested 1 1 = Reverted InvalidBatch requested \<and>
   closeBatch requested 1 2 = Reverted BatchDoesNotExist requested \<and>
   closeBatch requested 1 1 = Succeeded closed_pending [BatchClosedEvent 1] \<and>
   closed (batches closed_pending 1) \<and>
   closeBatch closed_pending 1 1 = Reverted BatchClosed closed_pending \<and>
   closed (batches (run reference_fhevm closed_pending
      [(1, 2000, OpenBatch 1), (2, 2000, SubmitData 1 1 1)]) 1)"
proof -
  have facts: "exists (batches requested 1)" "\<not> exists (batches requested 2)"
    "owner requested = 1" "\<not> paused requested" "\<not> closed (batches requested 1)"
    by (simp_all add: requested_eq)
  have close: "closeBatch requested 1 1 = Succeeded closed_pending [BatchClosedEvent 1]"
    unfolding closed_pending_def by (simp add: closeBatch_def facts)
  have after: "owner closed_pending = 1" "\<not> paused closed_pending"
    unfolding closed_pending_def by (simp_all add: closeBatch_def facts)
  have a: "openBatch requested 1 1 = Reverted InvalidBatch requested"
    using batch_lifecycle[of requested 1 1 requested "[]" reference_fhevm "[]"] facts
    by simp
  have b: "closeBatch requested 1 2 = Reverted BatchDoesNotExist requested"
    using batch_lifecycle[of requested 2 1 requested "[]" reference_fhevm "[]"] facts
    by simp
  have c: "exists (batches closed_pending 1) \<and> closed (batches closed_pending 1)"
    using batch_lifecycle[of requested 1 1 closed_pending "[BatchClosedEvent 1]"
        reference_fhevm "[]"] close
    by simp
  have d: "closeBatch closed_pending 1 1 = Reverted BatchClosed closed_pending \<and>
     closed (batches (run reference_fhevm closed_pending
      [(1, 2000, OpenBatch 1), (2, 2000, SubmitData 1 1 1)]) 1)"
    using batch_lifecycle[of closed_pending 1 1 closed_pending "[]" reference_fhevm
      "[(1, 2000, OpenBatch 1), (2, 2000, SubmitData 1 1 1)]"] c after
    by (simp del: run.simps)
  from facts a b close c d show ?thesis by (simp del: run.simps)
qed

subsection \<open>Atomicity\<close>

text \<open>
  Claim C9. Every entry point is atomic. Whenever a call reverts with an error of the
  contract, no write has happened before the revert: the working storage at the revert is
  the storage before the call, so the committed storage is unchanged too. In particular the callback succeeds, and flips the
  processed flag, only if the replay check, the state-match check and the proof verification
  have all passed, and a reverted \<open>submitData\<close> has not touched the cooldown timestamp.
\<close>

theorem reverts_leave_storage:
  "(exec env s t = Reverted e w \<longrightarrow> w = s \<and> commit s (exec env s t) = s) \<and>
   (myCallback env s requestId cleartexts proof = Succeeded s' evs \<longrightarrow>
      \<not> processed (decryptionContexts s requestId) \<and>
      hashCiphertexts env s (batchId (decryptionContexts s requestId))
        = stateHash (decryptionContexts s requestId) \<and>
      FHE_checkSignatures env requestId cleartexts proof) \<and>
   (myCallback env s requestId cleartexts proof = Reverted e' w' \<longrightarrow>
      decryptionContexts w' = decryptionContexts s) \<and>
   (submitData env s sender now bid val shares = Reverted e'' w'' \<longrightarrow>
      lastSubmissionTime w'' = lastSubmissionTime s)"
proof (intro conjI impI)
  assume r: "exec env s t = Reverted e w"
  then show "w = s" by (rule exec_reverted_same)
  from r show "commit s (exec env s t) = s" by simp
next
  assume "myCallback env s requestId cleartexts proof = Succeeded s' evs"
  from myCallback_success_checks[OF this]
  show "\<not> processed (decryptionContexts s requestId)"
    and "hashCiphertexts env s (batchId (decryptionContexts s requestId))
        = stateHash (decryptionContexts s requestId)"
    and "FHE_checkSignatures env requestId cleartexts proof"
    by simp_all
next
  assume "myCallback env s requestId cleartexts proof = Reverted e' w'"
  then have "exec env s (0, 0, MyCallback requestId cleartexts proof) = Reverted e' w'"
    by simp
  from exec_reverted_same[OF this] show "decryptionContexts w' = decryptionContexts s"
    by simp
next
  assume "submitData env s sender now bid val shares = Reverted e'' w''"
  then have "exec env s (sender, now, SubmitData bid val shares) = Reverted e'' w''"
    by simp
  from exec_reverted_same[OF this] show "lastSubmissionTime w'' = lastSubmissionTime s"
    by simp
qed

text \<open>
  In the scenario: a callback with a proof that does not verify, a second submission of
  provider 2 within the cooldown, and the accepted callback.
\<close>

theorem reverts_leave_storage_witness:
  "exec reference_fhevm requested (9, 1001, MyCallback 7 (payload 150 15) [])
     = Reverted InvalidProof requested \<and>
   myCallback reference_fhevm requested 7 (payload 150 15) []
     = Reverted InvalidProof requested \<and>
   submitData reference_fhevm requested 2 1001 1 1 1 = Reverted CooldownActive requested \<and>
   succeeded (myCallback reference_fhevm requested 7 (payload 150 15) (payload 150 15)) \<and>
   \<not> processed (decryptionContexts requested 7)"
proof -
  have bad: "myCallback reference_fhevm requested 7 (payload 150 15) []
     = Reverted InvalidProof requested"
    by (simp add: myCallback_def requested_context requested_hash Let_def)
       (simp add: reference_fhevm_def payload_def)
  have early: "submitData reference_fhevm requested 2 1001 1 1 1
     = Reverted CooldownActive requested"
    by (simp add: submitData_def checked_add_def requested_eq)
  have valid: "FHE_checkSignatures reference_fhevm 7 (payload 150 15) (payload 150 15)"
    by (simp add: reference_fhevm_def)
  have good: "myCallback reference_fhevm requested 7 (payload 150 15) (payload 150 15)
     = Succeeded finalized [DecryptionCompleted 7 1 150 15]"
    unfolding finalized_def
    by (simp add: myCallback_def requested_context requested_hash payload_decodes valid
          Let_def)
  from reverts_leave_storage[of reference_fhevm requested
      "(9, 1001, MyCallback 7 (payload 150 15) [])" InvalidProof requested
      7 "payload 150 15" "payload 150 15" finalized "[DecryptionCompleted 7 1 150 15]"
      CooldownActive requested 2 1001 1 1 1 CooldownActive requested]
    reverts_leave_storage[of reference_fhevm requested
      "(9, 1001, MyCallback 7 (payload 150 15) [])" InvalidProof requested
      7 "payload 150 15" "[]" finalized "[]"
      InvalidProof requested 2 1001 1 1 1 CooldownActive requested]
    bad early good
  show ?thesis by simp
qed

subsection \<open>The pause switch\<close>

text \<open>
  Claim C3. Every state-mutating entry point other than ownership and administration checks
  the pause flag and reverts with Paused when it is set; the claim names the decryption
  callback among them. The callback carries no such check: with the contract paused while
  the request of the scenario is pending, the oracle's callback is accepted, flips the
  processed flag and emits the completion event.
\<close>

theorem callback_ignores_pause:
  "paused paused_pending \<and>
   openBatch paused_pending 1 2 = Reverted Paused paused_pending \<and>
   closeBatch paused_pending 1 1 = Reverted Paused paused_pending \<and>
   submitData reference_fhevm paused_pending 2 2000 1 1 1 = Reverted Paused paused_pending \<and>
   requestBatchDecryption reference_fhevm paused_pending 1 2000 1 8
     = Reverted Paused paused_pending \<and>
   myCallback reference_fhevm paused_pending 7 (payload 150 15) (payload 150 15)
     = Succeeded
         (paused_pending\<lparr>decryptionContexts := (decryptionContexts paused_pending)
            (7 := \<lparr>batchId = 1, stateHash = 41614715, processed = True\<rparr>)\<rparr>)
         [DecryptionCompleted 7 1 150 15]"
proof -
  have eq: "paused_pending = requested\<lparr>paused := True\<rparr>"
    unfolding paused_pending_def by (simp add: pause_def requested_eq)
  have flags: "paused paused_pending" "owner paused_pending = 1" "isProvider paused_pending 2"
    by (simp_all add: eq) (simp_all add: requested_eq)
  have ctx: "decryptionContexts paused_pending 7
      = \<lparr>batchId = 1, stateHash = 41614715, processed = False\<rparr>"
    by (simp add: eq requested_context)
  have hash: "hashCiphertexts reference_fhevm paused_pending 1 = 41614715"
    using requested_hash by (simp add: eq hashCiphertexts_def getCiphertexts_def)
  have valid: "FHE_checkSignatures reference_fhevm 7 (payload 150 15) (payload 150 15)"
    by (simp add: reference_fhevm_def)
  have cb: "myCallback reference_fhevm paused_pending 7 (payload 150 15) (payload 150 15)
     = Succeeded
         (paused_pending\<lparr>decryptionContexts := (decryptionContexts paused_pending)
            (7 := \<lparr>batchId = 1, stateHash = 41614715, processed = True\<rparr>)\<rparr>)
         [DecryptionCompleted 7 1 150 15]"
    by (simp add: myCallback_def ctx hash payload_decodes valid Let_def)
  from flags cb show ?thesis
    by (simp add: openBatch_def closeBatch_def submitData_def requestBatchDecryption_def)
qed

subsection \<open>Initialization of encrypted amounts\<close>

text \<open>
  Claim C5. Every encrypted amount is initialized to an encrypted zero before its first use,
  and \<open>submitData\<close> never adds onto an uninitialized handle. \<open>initIfNeeded\<close> initializes the
  two global totals only. On the first submission to batch 1 of the scenario the call is
  accepted, and the left operands of the two additions on the batch's running totals are the
  zero handle, which is not initialized; the left operands of the two additions on the
  global totals are initialized.
\<close>

theorem first_submission_adds_to_uninitialized:
  "batchEncryptedValue opened 1 = 0 \<and> batchEncryptedShares opened 1 = 0 \<and>
   \<not> FHE_isInitialized reference_fhevm 0 \<and> \<not> requireInitialized reference_fhevm 0 \<and>
   succeeded (submitData reference_fhevm opened 2 1000 1 100 10) \<and>
   snd (snd (submitData_body reference_fhevm opened 2 1000 1 100 10))
     = [(0, 101), (0, 11), (1, 101), (1, 11)] \<and>
   FHE_isInitialized reference_fhevm 1"
proof -
  have uninit: "\<not> FHE_isInitialized reference_fhevm 0" "FHE_isInitialized reference_fhevm 1"
    by (simp_all add: reference_fhevm_def)
  have adds: "snd (snd (submitData_body reference_fhevm opened 2 1000 1 100 10))
     = [(0, 101), (0, 11), (1, 101), (1, 11)]"
    by (simp add: opened_eq submitData_body_def initIfNeeded_def platform_defs Let_def)
  have ok: "succeeded (submitData reference_fhevm opened 2 1000 1 100 10)"
    by (simp add: opened_eq submitData_def checked_add_def split: prod.splits)
  from uninit adds ok show ?thesis
    by (simp add: requireInitialized_def) (simp add: opened_eq)
qed

subsection \<open>Acceptance of a submission\<close>




subsection \<open>Requesting a decryption\<close>

text \<open>
  Claim C8, as amended. When the caller is the owner, the contract is not paused and at
  least \<open>cooldownSeconds\<close> have elapsed since the caller's last decryption request,
  \<open>requestBatchDecryption\<close> on an existing batch, open or closed (the closed flag is not
  read), succeeds if the FHE library accepts the decryption request for the batch's two
  handles, and fails with the library's revert, committing nothing, if the library reverts
  the request; on a batch that was never opened it reverts with BatchDoesNotExist. The
  cooldown is the one of decryption requests: the call neither reads nor writes the
  submission timestamps, and an accepted submission does not write the request timestamps.
\<close>

theorem requestBatchDecryption_on_existing_batch:
  assumes "sender = owner s" and "\<not> paused s"
    and "unat (lastDecryptionRequestTime s sender) + unat (cooldownSeconds s) \<le> unat now"
  shows "(exists (batches s bid) \<and>
          \<not> FHE_reverts env (RequestDecryption (getCiphertexts s bid)) \<longrightarrow>
            requestBatchDecryption env s sender now bid requestId
              = Succeeded
                  (s\<lparr>lastDecryptionRequestTime := (lastDecryptionRequestTime s)(sender := now),
                     decryptionContexts := (decryptionContexts s)
                       (requestId := \<lparr>batchId = bid, stateHash = hashCiphertexts env s bid,
                                      processed = False\<rparr>)\<rparr>)
                  [DecryptionRequested requestId bid (hashCiphertexts env s bid)]) \<and>
         (exists (batches s bid) \<and>
          FHE_reverts env (RequestDecryption (getCiphertexts s bid)) \<longrightarrow>
            requestBatchDecryption env s sender now bid requestId = Refused \<and>
            commit s (requestBatchDecryption env s sender now bid requestId) = s) \<and>
         (\<not> exists (batches s bid) \<longrightarrow>
            requestBatchDecryption env s sender now bid requestId
              = Reverted BatchDoesNotExist s) \<and>
         succeeded (requestBatchDecryption env
             (s\<lparr>lastSubmissionTime := anyTimes,
                batches := (batches s)(bid := (batches s bid)\<lparr>closed := anyFlag\<rparr>)\<rparr>)
             sender now bid requestId)
           = (exists (batches s bid) \<and>
              \<not> FHE_reverts env (RequestDecryption (getCiphertexts s bid))) \<and>
         (submitData env s submitter now' bid' val shares = Succeeded s' evs \<longrightarrow>
            lastDecryptionRequestTime s' = lastDecryptionRequestTime s)"
proof -
  from checked_add_Some[OF assms(3)]
  have add: "checked_add (lastDecryptionRequestTime s sender) (cooldownSeconds s)
      = Some (lastDecryptionRequestTime s sender + cooldownSeconds s)"
    and le: "\<not> now < lastDecryptionRequestTime s sender + cooldownSeconds s"
    by (simp_all add: not_less)
  have hash: "hashCiphertexts env
      (s\<lparr>lastDecryptionRequestTime := (lastDecryptionRequestTime s)(sender := now)\<rparr>) bid
      = hashCiphertexts env s bid"
    by (simp add: hashCiphertexts_def getCiphertexts_def)
  have cts: "getCiphertexts
      (s\<lparr>lastDecryptionRequestTime := (lastDecryptionRequestTime s)(sender := now)\<rparr>) bid
      = getCiphertexts s bid"
    "getCiphertexts
      (s\<lparr>lastSubmissionTime := anyTimes,
         batches := (batches s)(bid := (batches s bid)\<lparr>closed := anyFlag\<rparr>),
         lastDecryptionRequestTime := (lastDecryptionRequestTime s)(sender := now)\<rparr>) bid
      = getCiphertexts s bid"
    by (simp_all add: getCiphertexts_def)
  have sub: "submitData env s submitter now' bid' val shares = Succeeded s' evs \<Longrightarrow>
      lastDecryptionRequestTime s' = lastDecryptionRequestTime s"
    by (auto simp: submitData_def submitData_body_def Let_def
             split: if_splits option.splits prod.splits)
  from assms(1,2) add le hash cts sub show ?thesis
    by (simp add: requestBatchDecryption_def Let_def)
qed

text \<open>
  On the reference platform, with batch 1 closed while the first request is pending, the
  owner's second request, made after the cooldown, is accepted; the same request on batch 2
  finds no batch. On the platform with access control the owner's request on the open
  batch 1 is reverted by the library.
\<close>

theorem requestBatchDecryption_on_existing_batch_witness:
  "1 = owner closed_pending \<and> \<not> paused closed_pending \<and>
   unat (lastDecryptionRequestTime closed_pending 1) + unat (cooldownSeconds closed_pending)
     \<le> unat (1060 :: uint256) \<and>
   exists (batches closed_pending 1) \<and> closed (batches closed_pending 1) \<and>
   \<not> FHE_reverts reference_fhevm (RequestDecryption (getCiphertexts closed_pending 1)) \<and>
   succeeded (requestBatchDecryption reference_fhevm closed_pending 1 1060 1 8) \<and>
   requestBatchDecryption reference_fhevm closed_pending 1 1060 2 8
     = Reverted BatchDoesNotExist closed_pending \<and>
   1 = owner opened \<and> \<not> paused opened \<and>
   unat (lastDecryptionRequestTime opened 1) + unat (cooldownSeconds opened)
     \<le> unat (1000 :: uint256) \<and>
   exists (batches opened 1) \<and>
   FHE_reverts guarded_fhevm (RequestDecryption (getCiphertexts opened 1)) \<and>
   requestBatchDecryption guarded_fhevm opened 1 1000 1 7 = Refused"
proof -
  have eq: "closed_pending
      = requested\<lparr>batches := (batches requested)(1 := \<lparr>exists = True, closed = True\<rparr>)\<rparr>"
    unfolding closed_pending_def by (simp add: closeBatch_def requested_eq)
  have facts: "1 = owner closed_pending" "\<not> paused closed_pending"
    "unat (lastDecryptionRequestTime closed_pending 1) + unat (cooldownSeconds closed_pending)
       \<le> unat (1060 :: uint256)"
    "exists (batches closed_pending 1)" "closed (batches closed_pending 1)"
    "\<not> exists (batches closed_pending 2)"
    by (simp_all add: eq) (simp_all add: requested_eq)
  have early: "1 = owner opened" "\<not> paused opened"
    "unat (lastDecryptionRequestTime opened 1) + unat (cooldownSeconds opened)
       \<le> unat (1000 :: uint256)"
    "exists (batches opened 1)"
    by (simp_all add: opened_eq)
  have denied: "FHE_reverts guarded_fhevm (RequestDecryption (getCiphertexts opened 1))"
    by (simp add: guarded_fhevm_def)
  have a: "succeeded (requestBatchDecryption reference_fhevm closed_pending 1 1060 1 8)"
    using requestBatchDecryption_on_existing_batch[OF facts(1,2,3), of 1 reference_fhevm 8]
      facts
    by simp
  have b: "requestBatchDecryption reference_fhevm closed_pending 1 1060 2 8
     = Reverted BatchDoesNotExist closed_pending"
    using requestBatchDecryption_on_existing_batch[OF facts(1,2,3), of 2 reference_fhevm 8]
      facts
    by simp
  have c: "requestBatchDecryption guarded_fhevm opened 1 1000 1 7 = Refused"
    using requestBatchDecryption_on_existing_batch[OF early(1,2,3), of 1 guarded_fhevm 7]
      early denied
    by simp
  from facts early denied a b c show ?thesis by simp
qed

text \<open>
  The claim as written fails where the library reverts the request. On the platform with
  access control, right after deployment, registration and the opening of batch 1, the
  caller is the owner, the contract is not paused, the cooldown has elapsed and batch 1
  exists, yet the owner's request does not succeed.
\<close>

theorem requestBatchDecryption_refused_counterexample:
  "run guarded_fhevm (constructor guarded_fhevm 1) (take 3 scenario) = opened \<and>
   owner opened = 1 \<and> \<not> paused opened \<and>
   unat (lastDecryptionRequestTime opened 1) + unat (cooldownSeconds opened)
     \<le> unat (1000 :: uint256) \<and>
   exists (batches opened 1) \<and>
   \<not> succeeded (requestBatchDecryption guarded_fhevm opened 1 1000 1 7) \<and>
   requestBatchDecryption guarded_fhevm opened 1 1000 1 7 = Refused"
proof -
  have deployed: "constructor guarded_fhevm 1 = constructor reference_fhevm 1"
    by (simp add: constructor_def initIfNeeded_def guarded_fhevm_def Let_def)
  have reach: "run guarded_fhevm (constructor guarded_fhevm 1) (take 3 scenario) = opened"
    unfolding opened_def deployed by (simp add: scenario_def)
  have early: "owner opened = 1" "\<not> paused opened"
    "lastDecryptionRequestTime opened 1 = 0" "cooldownSeconds opened = 60"
    "exists (batches opened 1)"
    by (simp_all add: opened_eq)
  then have refused: "requestBatchDecryption guarded_fhevm opened 1 1000 1 7 = Refused"
    by (simp add: requestBatchDecryption_def checked_add_def guarded_fhevm_def Let_def)
  from reach early refused show ?thesis by simp
qed

subsection \<open>Running totals and provider records\<close>

text \<open>
  Claim C7. Start from the deployed contract and run any sequence of transactions. The
  running encrypted value of a batch is then the homomorphic sum, on top of the zero handle,
  of the values of all accepted \<open>submitData\<close> calls on that batch, in order, whoever made
  them and however often; likewise for the shares. The record of a provider in the batch
  holds the encryption of that provider's latest accepted submission only. For a decryption
  \<open>dec\<close> that is homomorphic for \<open>FHE_add\<close>, inverts \<open>FHE_asEuint32\<close> and reads the zero handle
  as 0 (as the addition does for an uninitialized operand), the decrypted batch totals are
  the 32-bit sums of the submitted plaintexts.
\<close>

theorem batch_totals_accumulate:
  assumes "\<forall>a b. dec (FHE_add env a b) = dec a + dec b"
    and "\<forall>v. dec (FHE_asEuint32 env v) = v"
    and "dec 0 = 0"
    and "subs = accepted_submissions env (constructor env deployer) txs b"
    and "s' = run env (constructor env deployer) txs"
  shows "batchEncryptedValue s' b = homomorphic_sum env 0 (map (\<lambda>(p, v, sh). v) subs) \<and>
         batchEncryptedShares s' b = homomorphic_sum env 0 (map (\<lambda>(p, v, sh). sh) subs) \<and>
         dec (batchEncryptedValue s' b) = sum_list (map (\<lambda>(p, v, sh). v) subs) \<and>
         dec (batchEncryptedShares s' b) = sum_list (map (\<lambda>(p, v, sh). sh) subs) \<and>
         providerEncryptedValue s' b p
           = (case latest_of p subs of Some (v, sh) \<Rightarrow> FHE_asEuint32 env v | None \<Rightarrow> 0) \<and>
         providerEncryptedShares s' b p
           = (case latest_of p subs of Some (v, sh) \<Rightarrow> FHE_asEuint32 env sh | None \<Rightarrow> 0)"
proof -
  have v: "batchEncryptedValue s' b = homomorphic_sum env 0 (map (\<lambda>(p, v, sh). v) subs)"
    unfolding assms(4,5) by (simp add: run_batch_total(1) constructor_batch_fields)
  have sh: "batchEncryptedShares s' b = homomorphic_sum env 0 (map (\<lambda>(p, v, sh). sh) subs)"
    unfolding assms(4,5) by (simp add: run_batch_total(2) constructor_batch_fields)
  have dv: "dec (batchEncryptedValue s' b) = sum_list (map (\<lambda>(p, v, sh). v) subs)"
    unfolding v by (simp add: decrypt_homomorphic_sum[OF assms(1,2)] assms(3))
  have dsh: "dec (batchEncryptedShares s' b) = sum_list (map (\<lambda>(p, v, sh). sh) subs)"
    unfolding sh by (simp add: decrypt_homomorphic_sum[OF assms(1,2)] assms(3))
  have pv: "providerEncryptedValue s' b p
      = (case latest_of p subs of Some (v, sh) \<Rightarrow> FHE_asEuint32 env v | None \<Rightarrow> 0)"
    unfolding assms(4,5)
    by (simp add: run_provider_record(1) constructor_batch_fields split: option.splits)
  have psh: "providerEncryptedShares s' b p
      = (case latest_of p subs of Some (v, sh) \<Rightarrow> FHE_asEuint32 env sh | None \<Rightarrow> 0)"
    unfolding assms(4,5)
    by (simp add: run_provider_record(2) constructor_batch_fields split: option.splits)
  from v sh dv dsh pv psh show ?thesis by simp
qed

text \<open>
  The scenario, followed by a second submission of provider 2 after the cooldown: three
  accepted calls by two providers. The totals decrypt to 100 + 50 + 7 and 10 + 5 + 1, and
  the record of provider 2 holds the encryption of 7 and 1 only.
\<close>

theorem batch_totals_accumulate_witness:
  "(\<forall>a b. clear_value (FHE_add reference_fhevm a b) = clear_value a + clear_value b) \<and>
   (\<forall>v. clear_value (FHE_asEuint32 reference_fhevm v) = v) \<and>
   clear_value 0 = 0 \<and>
   accepted_submissions reference_fhevm (constructor reference_fhevm 1)
       (scenario @ [(2, 1060, SubmitData 1 7 1)]) 1
     = [(2, 100, 10), (3, 50, 5), (2, 7, 1)] \<and>
   clear_value (batchEncryptedValue
       (run reference_fhevm (constructor reference_fhevm 1)
          (scenario @ [(2, 1060, SubmitData 1 7 1)])) 1) = 157 \<and>
   clear_value (batchEncryptedShares
       (run reference_fhevm (constructor reference_fhevm 1)
          (scenario @ [(2, 1060, SubmitData 1 7 1)])) 1) = 16 \<and>
   providerEncryptedValue
       (run reference_fhevm (constructor reference_fhevm 1)
          (scenario @ [(2, 1060, SubmitData 1 7 1)])) 1 2 = FHE_asEuint32 reference_fhevm 7"
proof -
  have subs: "accepted_submissions reference_fhevm (constructor reference_fhevm 1)
       (scenario @ [(2, 1060, SubmitData 1 7 1)]) 1
     = [(2, 100, 10), (3, 50, 5), (2, 7, 1)]"
    unfolding scenario_def deployed_eq
    by (simp add: zero_storage_def initIfNeeded_def platform_defs addProvider_def
          openBatch_def submitData_def submitData_body_def checked_add_def
          requestBatchDecryption_def hashCiphertexts_def getCiphertexts_def abi_encode_def
          Let_def)
  note totals = batch_totals_accumulate[OF reference_homomorphic subs[symmetric] refl, of 2]
  have dv: "clear_value (batchEncryptedValue
       (run reference_fhevm (constructor reference_fhevm 1)
          (scenario @ [(2, 1060, SubmitData 1 7 1)])) 1) = 157"
    using totals[THEN conjunct2, THEN conjunct2, THEN conjunct1] by simp
  have dsh: "clear_value (batchEncryptedShares
       (run reference_fhevm (constructor reference_fhevm 1)
          (scenario @ [(2, 1060, SubmitData 1 7 1)])) 1) = 16"
    using totals[THEN conjunct2, THEN conjunct2, THEN conjunct2, THEN conjunct1] by simp
  have pv: "providerEncryptedValue
       (run reference_fhevm (constructor reference_fhevm 1)
          (scenario @ [(2, 1060, SubmitData 1 7 1)])) 1 2 = FHE_asEuint32 reference_fhevm 7"
    using totals[THEN conjunct2, THEN conjunct2, THEN conjunct2, THEN conjunct2,
                 THEN conjunct1]
    by simp
  from reference_homomorphic subs dv dsh pv show ?thesis by blast
qed

subsection \<open>The snapshot commitment\<close>

text \<open>
  Claim C2. A decryption request on a batch was issued and is still pending: since then the
  oracle has neither called back that request id nor issued it again. If the transactions in
  between changed the batch's encrypted-value or encrypted-shares handle, the callback
  reverts with StateMismatch. The callback hashes the batch's two current handles together
  with the contract's address and compares with the hash stored by the request; the only
  assumption on the hash is that it does not collide on the two snapshots.
\<close>

theorem changed_snapshot_rejected:
  assumes "requestBatchDecryption env s sender now bid requestId = Succeeded s1 evs"
    and "\<forall>t\<in>set txs. \<not> issues requestId t \<and> \<not> calls_back requestId t"
    and "getCiphertexts (run env s1 txs) bid \<noteq> getCiphertexts s bid"
    and "keccak256 env (abi_encode (getCiphertexts (run env s1 txs) bid) (this env))
           = keccak256 env (abi_encode (getCiphertexts s bid) (this env))
         \<longrightarrow> abi_encode (getCiphertexts (run env s1 txs) bid) (this env)
               = abi_encode (getCiphertexts s bid) (this env)"
  shows "stateHash (decryptionContexts s1 requestId) = hashCiphertexts env s bid \<and>
         hashCiphertexts env (run env s1 txs) bid \<noteq> hashCiphertexts env s bid \<and>
         myCallback env (run env s1 txs) requestId cleartexts proof
           = Reverted StateMismatch (run env s1 txs)"
proof -
  have stored: "decryptionContexts s1 requestId
      = \<lparr>batchId = bid, stateHash = hashCiphertexts env s bid, processed = False\<rparr>"
    using assms(1)
    by (auto simp: requestBatchDecryption_def hashCiphertexts_def getCiphertexts_def Let_def
             split: if_splits option.splits)
  have pending: "decryptionContexts (run env s1 txs) requestId
      = decryptionContexts s1 requestId"
    using assms(2) by (rule run_pending_stays)
  have "abi_encode (getCiphertexts (run env s1 txs) bid) (this env)
      \<noteq> abi_encode (getCiphertexts s bid) (this env)"
    using assms(3) by (simp add: abi_encode_def getCiphertexts_def)
  with assms(4)
  have differs: "hashCiphertexts env (run env s1 txs) bid \<noteq> hashCiphertexts env s bid"
    unfolding hashCiphertexts_def by blast
  from stored pending differs show ?thesis
    by (simp add: myCallback_def Let_def)
qed

text \<open>
  The second scenario of the specification: after the request, provider 2 submits again
  (value 7, one share) before the callback arrives; the callback with the totals of the
  snapshot and a valid proof is rejected.
\<close>

theorem changed_snapshot_rejected_witness:
  "requestBatchDecryption reference_fhevm submitted 1 1000 1 7
     = Succeeded requested [DecryptionRequested 7 1 41614715] \<and>
   succeeded (submitData reference_fhevm requested 2 1060 1 7 1) \<and>
   getCiphertexts submitted 1 = [151, 16] \<and>
   getCiphertexts (run reference_fhevm requested [(2, 1060, SubmitData 1 7 1)]) 1
     = [158, 17] \<and>
   FHE_checkSignatures reference_fhevm 7 (payload 150 15) (payload 150 15) \<and>
   myCallback reference_fhevm (run reference_fhevm requested [(2, 1060, SubmitData 1 7 1)]) 7
       (payload 150 15) (payload 150 15)
     = Reverted StateMismatch (run reference_fhevm requested [(2, 1060, SubmitData 1 7 1)])"
proof -
  have sub_eq: "submitted = requested\<lparr>lastDecryptionRequestTime := (\<lambda>_. 0),
      decryptionContexts := (\<lambda>_. \<lparr>batchId = 0, stateHash = 0, processed = False\<rparr>)\<rparr>"
  proof -
    have "take 5 scenario = take 3 scenario @
        [(2, 1000, SubmitData 1 100 10), (3, 1000, SubmitData 1 50 5)]"
      by (simp add: scenario_def)
    then have "submitted = run reference_fhevm opened
        [(2, 1000, SubmitData 1 100 10), (3, 1000, SubmitData 1 50 5)]"
      unfolding submitted_def opened_def by (simp only: run_append)
    then show ?thesis
      unfolding opened_eq requested_eq
      by (simp add: initIfNeeded_def platform_defs submitData_def submitData_body_def
            checked_add_def Let_def)
  qed
  have before: "getCiphertexts submitted 1 = [151, 16]"
    by (simp add: sub_eq getCiphertexts_def requested_eq)
  have req: "requestBatchDecryption reference_fhevm submitted 1 1000 1 7
     = Succeeded requested [DecryptionRequested 7 1 41614715]"
    unfolding sub_eq requested_eq
    by (simp add: requestBatchDecryption_def checked_add_def hashCiphertexts_def
          getCiphertexts_def abi_encode_def reference_fhevm_def Let_def)
  have late: "succeeded (submitData reference_fhevm requested 2 1060 1 7 1)"
    by (simp add: submitData_def checked_add_def requested_eq split: prod.splits)
  have after: "getCiphertexts (run reference_fhevm requested [(2, 1060, SubmitData 1 7 1)]) 1
     = [158, 17]"
    unfolding requested_eq
    by (simp add: submitData_def submitData_body_def checked_add_def initIfNeeded_def
          platform_defs getCiphertexts_def Let_def)
  have between: "\<forall>t\<in>set [(2, 1060, SubmitData 1 7 1)]. \<not> issues 7 t \<and> \<not> calls_back 7 t"
    by simp
  have changed: "getCiphertexts (run reference_fhevm requested [(2, 1060, SubmitData 1 7 1)]) 1
     \<noteq> getCiphertexts submitted 1"
    unfolding after before by simp
  have no_collision:
    "keccak256 reference_fhevm (abi_encode
        (getCiphertexts (run reference_fhevm requested [(2, 1060, SubmitData 1 7 1)]) 1)
        (this reference_fhevm))
       = keccak256 reference_fhevm (abi_encode (getCiphertexts submitted 1)
           (this reference_fhevm))
     \<longrightarrow> abi_encode
        (getCiphertexts (run reference_fhevm requested [(2, 1060, SubmitData 1 7 1)]) 1)
        (this reference_fhevm)
       = abi_encode (getCiphertexts submitted 1) (this reference_fhevm)"
    unfolding after before by (simp add: reference_fhevm_def abi_encode_def)
  have valid: "FHE_checkSignatures reference_fhevm 7 (payload 150 15) (payload 150 15)"
    by (simp add: reference_fhevm_def)
  from changed_snapshot_rejected[OF req between changed no_collision,
      of "payload 150 15" "payload 150 15"] req late before after valid
  show ?thesis by blast
qed

subsection \<open>Callbacks for requests that were never issued\<close>

text \<open>
  Claim C10. Take a request id that no decryption request of the trace was numbered with,
  and a hash that is never zero on the encoding of two handles and the contract's address.
  From deployment on, the context stored for that request id is the all-zero default, and
  every callback for it reverts with StateMismatch: the replay check passes, and the hash of
  the handles of batch 0 differs from the stored zero hash. So nothing is marked processed
  and no completion event is emitted.
\<close>

theorem unissued_request_rejected:
  assumes "\<forall>t\<in>set txs. \<not> issues requestId t"
    and "\<forall>v sh. keccak256 env (abi_encode [v, sh] (this env)) \<noteq> 0"
  shows "decryptionContexts (run env (constructor env deployer) txs) requestId
           = \<lparr>batchId = 0, stateHash = 0, processed = False\<rparr> \<and>
         hashCiphertexts env (run env (constructor env deployer) txs) 0 \<noteq> 0 \<and>
         myCallback env (run env (constructor env deployer) txs) requestId cleartexts proof
           = Reverted StateMismatch (run env (constructor env deployer) txs)"
proof -
  have start: "decryptionContexts (constructor env deployer) requestId
      = \<lparr>batchId = 0, stateHash = 0, processed = False\<rparr>"
    by (simp add: constructor_batch_fields)
  from run_unissued_stays[OF assms(2) assms(1) start] start
  have ctx: "decryptionContexts (run env (constructor env deployer) txs) requestId
      = \<lparr>batchId = 0, stateHash = 0, processed = False\<rparr>"
    by simp
  have nz: "hashCiphertexts env (run env (constructor env deployer) txs) 0 \<noteq> 0"
    using assms(2) by (simp add: hashCiphertexts_def getCiphertexts_def)
  from ctx nz zero_context_mismatch[OF ctx assms(2)] show ?thesis by simp
qed

text \<open>
  In the scenario the only request is number 7: a callback for number 8 is rejected, even
  with a proof that verifies.
\<close>

theorem unissued_request_rejected_witness:
  "map (issues 8) scenario = [False, False, False, False, False, False] \<and>
   (\<forall>v sh. keccak256 reference_fhevm (abi_encode [v, sh] (this reference_fhevm)) \<noteq> 0) \<and>
   FHE_checkSignatures reference_fhevm 8 (payload 150 15) (payload 150 15) \<and>
   myCallback reference_fhevm requested 8 (payload 150 15) (payload 150 15)
     = Reverted StateMismatch requested"
proof -
  have unissued: "\<forall>t\<in>set scenario. \<not> issues 8 t"
    by (simp add: scenario_def)
  have valid: "FHE_checkSignatures reference_fhevm 8 (payload 150 15) (payload 150 15)"
    by (simp add: reference_fhevm_def)
  have listed: "map (issues 8) scenario = [False, False, False, False, False, False]"
    by (simp add: scenario_def)
  from unissued_request_rejected[OF unissued reference_hash_nonzero,
      of 1 "payload 150 15" "payload 150 15"]
    listed reference_hash_nonzero valid
  show ?thesis unfolding requested_def by blast
qed

end
